theory Spec2Isabelle
  imports Main
begin

section \<open>Python strings and the interpreter's character tables\<close>

text \<open>
  A Python \<open>str\<close> is a sequence of Unicode code points, so a character is a natural
  number and \<open>len\<close> counts code points. ASCII literals of the source are written
  \<open>ustr ''...''\<close>.
\<close>

type_synonym pychar = nat
type_synonym pystr = "pychar list"

definition ustr :: "string \<Rightarrow> pystr" where
  "ustr s = map of_char s"

text \<open>
  \<open>data.py\<close> calls \<open>str.isalpha\<close>, \<open>str.isspace\<close>, \<open>str.isdigit\<close>, \<open>int\<close>,
  \<open>str.lower\<close> and \<open>str.capitalize\<close>. What they answer is decided by the Unicode
  tables compiled into the interpreter and by its integer-conversion limit
  (\<open>sys.int_max_str_digits\<close>, 0 meaning no limit). Neither is part of the repository, so
  the model takes them as a parameter: every general theorem below holds for every
  table and every limit. \<open>os.linesep\<close>, the line terminator pandas writes, is a
  parameter for the same reason.

  A character's Unicode \<open>Numeric_Type\<close> is \<open>Decimal\<close> (it can be part of a decimal
  number; \<open>int\<close> reads it), \<open>Digit\<close> (a digit in the typographic sense only, such as a
  superscript two; \<open>int\<close> refuses it) or neither.
\<close>

datatype numeric_type = Decimal nat | Digit nat | Not_A_Digit

record runtime =
  ch_numeric :: "pychar \<Rightarrow> numeric_type"
  ch_isalpha :: "pychar \<Rightarrow> bool"
  ch_isspace :: "pychar \<Rightarrow> bool"
  str_lower :: "pystr \<Rightarrow> pystr"
  str_capitalize :: "pystr \<Rightarrow> pystr"
  int_max_str_digits :: nat
  os_linesep :: pystr

datatype error = ValueError | AttributeError

text \<open>\<open>ch.isdigit()\<close>: the character has Numeric_Type Decimal or Digit.\<close>

definition ch_isdigit :: "runtime \<Rightarrow> pychar \<Rightarrow> bool" where
  "ch_isdigit py c =
     (case ch_numeric py c of Decimal _ \<Rightarrow> True | Digit _ \<Rightarrow> True | Not_A_Digit \<Rightarrow> False)"

definition ch_isdecimal :: "runtime \<Rightarrow> pychar \<Rightarrow> bool" where
  "ch_isdecimal py c =
     (case ch_numeric py c of Decimal _ \<Rightarrow> True | Digit _ \<Rightarrow> False | Not_A_Digit \<Rightarrow> False)"

definition decimal_digit :: "runtime \<Rightarrow> pychar \<Rightarrow> nat" where
  "decimal_digit py c =
     (case ch_numeric py c of Decimal d \<Rightarrow> d | Digit _ \<Rightarrow> 0 | Not_A_Digit \<Rightarrow> 0)"

text \<open>\<open>s.isdigit()\<close> and \<open>s.isalpha()\<close>: at least one character, and all of them pass.\<close>

definition isdigit :: "runtime \<Rightarrow> pystr \<Rightarrow> bool" where
  "isdigit py s = (s \<noteq> [] \<and> list_all (ch_isdigit py) s)"

definition isalpha :: "runtime \<Rightarrow> pystr \<Rightarrow> bool" where
  "isalpha py s = (s \<noteq> [] \<and> list_all (ch_isalpha py) s)"

text \<open>
  \<open>int(s)\<close> at its two call sites, both behind \<open>s.isdigit()\<close>, so \<open>s\<close> has no sign,
  blank or underscore. The value is read in base 10 from the decimal digits. The
  interpreter raises \<open>ValueError\<close> when a character is not a decimal digit, and when
  the string has more than 640 digits and more than \<open>sys.int_max_str_digits\<close> of them
  (leading zeros counted) while that limit is switched on.
\<close>

definition integer_value :: "runtime \<Rightarrow> pystr \<Rightarrow> nat" where
  "integer_value py s = foldl (\<lambda>acc c. 10 * acc + decimal_digit py c) 0 s"

definition exceeds_int_limit :: "runtime \<Rightarrow> pystr \<Rightarrow> bool" where
  "exceeds_int_limit py s =
     (0 < int_max_str_digits py \<and> 640 < length s \<and> int_max_str_digits py < length s)"

definition py_int :: "runtime \<Rightarrow> pystr \<Rightarrow> error + nat" where
  "py_int py s =
     (if s = [] \<or> \<not> list_all (ch_isdecimal py) s then Inl ValueError
      else if exceeds_int_limit py s then Inl ValueError
      else Inr (integer_value py s))"

text \<open>\<open>str(n)\<close> for a non-negative integer.\<close>

fun digits_of :: "nat \<Rightarrow> nat \<Rightarrow> pystr" where
  "digits_of 0 n = []"
| "digits_of (Suc fuel) n =
     (if n < 10 then [48 + n] else digits_of fuel (n div 10) @ [48 + n mod 10])"

definition py_str :: "nat \<Rightarrow> pystr" where
  "py_str n = digits_of (Suc n) n"


fun split_from :: "runtime \<Rightarrow> pystr \<Rightarrow> pystr \<Rightarrow> pystr list" where
  "split_from py cur [] = (if cur = [] then [] else [cur])"
| "split_from py cur (c # cs) =
     (if ch_isspace py c
      then (if cur = [] then split_from py [] cs else cur # split_from py [] cs)
      else split_from py (cur @ [c]) cs)"

definition split :: "runtime \<Rightarrow> pystr \<Rightarrow> pystr list" where
  "split py s = split_from py [] s"

fun join :: "pystr \<Rightarrow> pystr list \<Rightarrow> pystr" where
  "join sep [] = []"
| "join sep [p] = p"
| "join sep (p # q # ps) = p @ sep @ join sep (q # ps)"

subsection \<open>A concrete interpreter for evaluation\<close>

text \<open>
  CPython on a POSIX system, with its default limit of 4300 digits. The tables below are those of the
  Unicode database on U+0000..U+00FF; code points above U+00FF are left
  unclassified and caseless, and the concrete evaluations in this theory use only
  strings within U+0000..U+00FF. Of these, the digits are \<open>0\<close>..\<open>9\<close> (decimal) and the
  superscripts U+00B2, U+00B3, U+00B9 (digit only).
\<close>

definition latin1_numeric :: "pychar \<Rightarrow> numeric_type" where
  "latin1_numeric c =
     (if 48 \<le> c \<and> c \<le> 57 then Decimal (c - 48)
      else if c = 178 then Digit 2
      else if c = 179 then Digit 3
      else if c = 185 then Digit 1
      else Not_A_Digit)"

definition latin1_isalpha :: "pychar \<Rightarrow> bool" where
  "latin1_isalpha c =
     ((65 \<le> c \<and> c \<le> 90) \<or> (97 \<le> c \<and> c \<le> 122) \<or> c = 170 \<or> c = 181 \<or> c = 186
      \<or> (192 \<le> c \<and> c \<le> 255 \<and> c \<noteq> 215 \<and> c \<noteq> 247))"

definition latin1_isspace :: "pychar \<Rightarrow> bool" where
  "latin1_isspace c = ((9 \<le> c \<and> c \<le> 13) \<or> (28 \<le> c \<and> c \<le> 32) \<or> c = 133 \<or> c = 160)"

definition latin1_lower_char :: "pychar \<Rightarrow> pychar" where
  "latin1_lower_char c =
     (if (65 \<le> c \<and> c \<le> 90) \<or> (192 \<le> c \<and> c \<le> 222 \<and> c \<noteq> 215) then c + 32 else c)"

definition latin1_title_char :: "pychar \<Rightarrow> pystr" where
  "latin1_title_char c =
     (if (97 \<le> c \<and> c \<le> 122) \<or> (224 \<le> c \<and> c \<le> 254 \<and> c \<noteq> 247) then [c - 32]
      else if c = 181 then [924]
      else if c = 223 then [83, 115]
      else if c = 255 then [376]
      else [c])"

definition latin1_lower :: "pystr \<Rightarrow> pystr" where
  "latin1_lower s = map latin1_lower_char s"

definition latin1_capitalize :: "pystr \<Rightarrow> pystr" where
  "latin1_capitalize s =
     (case s of [] \<Rightarrow> [] | c # cs \<Rightarrow> latin1_title_char c @ latin1_lower cs)"

definition cpython :: runtime where
  "cpython = \<lparr> ch_numeric = latin1_numeric, ch_isalpha = latin1_isalpha,
               ch_isspace = latin1_isspace, str_lower = latin1_lower,
               str_capitalize = latin1_capitalize, int_max_str_digits = 4300,
               os_linesep = [10] \<rparr>"

section \<open>Donor records and the field validators of the add form\<close>

record donor =
  name :: pystr
  age :: pystr
  blood_group :: pystr
  contact :: pystr
  location :: pystr

text \<open>The options of the blood-group select box.\<close>

definition blood_groups_options :: "pystr list" where
  "blood_groups_options =
     [ustr ''A+'', ustr ''A-'', ustr ''B+'', ustr ''B-'',
      ustr ''O+'', ustr ''O-'', ustr ''AB+'', ustr ''AB-'']"

text \<open>
  \<^verbatim>\<open>name_valid = bool(name and all(ch.isalpha() or ch.isspace() for ch in name))\<close>
\<close>

definition name_valid :: "runtime \<Rightarrow> pystr \<Rightarrow> bool" where
  "name_valid py nm = (nm \<noteq> [] \<and> list_all (\<lambda>ch. ch_isalpha py ch \<or> ch_isspace py ch) nm)"

text \<open>
  \<^verbatim>\<open>age_valid = age.isdigit() and 18 <= int(age) <= 65 if age else False\<close>

  \<open>int(age)\<close> can raise, and nothing catches it: the validator then has no value.
\<close>

definition age_valid :: "runtime \<Rightarrow> pystr \<Rightarrow> error + bool" where
  "age_valid py ag =
     (if ag \<noteq> []
      then (if isdigit py ag
            then (case py_int py ag of
                    Inl e \<Rightarrow> Inl e
                  | Inr n \<Rightarrow> Inr (18 \<le> n \<and> n \<le> 65))
            else Inr False)
      else Inr False)"

text \<open>\<^verbatim>\<open>blood_group_valid = bool(blood_group)\<close>\<close>

definition blood_group_valid :: "pystr \<Rightarrow> bool" where
  "blood_group_valid bg = (bg \<noteq> [])"

text \<open>\<^verbatim>\<open>contact_valid = contact.isdigit() and len(contact) == 10 if contact else False\<close>\<close>

definition contact_valid :: "runtime \<Rightarrow> pystr \<Rightarrow> bool" where
  "contact_valid py c = (if c \<noteq> [] then isdigit py c \<and> length c = 10 else False)"

text \<open>\<^verbatim>\<open>location_valid = location.isalpha() and len(location) <= 20 if location else False\<close>\<close>

definition location_valid :: "runtime \<Rightarrow> pystr \<Rightarrow> bool" where
  "location_valid py l = (if l \<noteq> [] then isalpha py l \<and> length l \<le> 20 else False)"

text \<open>
  The validation step, lines 138 to 144, in the order of the source: a raise in
  \<open>age_valid\<close> ends the script run before the later fields are looked at.
\<close>

record validity =
  v_name :: bool
  v_age :: bool
  v_blood_group :: bool
  v_contact :: bool
  v_location :: bool
  v_all :: bool

definition validate :: "runtime \<Rightarrow> pystr \<Rightarrow> pystr \<Rightarrow> pystr \<Rightarrow> pystr \<Rightarrow> pystr \<Rightarrow> error + validity" where
  "validate py nm ag bg ct loc =
     (let nv = name_valid py nm in
      case age_valid py ag of
        Inl e \<Rightarrow> Inl e
      | Inr av \<Rightarrow>
          (let bv = blood_group_valid bg;
               cv = contact_valid py ct;
               lv = location_valid py loc
           in Inr \<lparr> v_name = nv, v_age = av, v_blood_group = bv, v_contact = cv,
                    v_location = lv, v_all = (nv \<and> av \<and> bv \<and> cv \<and> lv) \<rparr>))"

section \<open>The donor list view\<close>

text \<open>
  \<^verbatim>\<open>df["contact"] = df["contact"].apply(
      lambda x: str(x)[:-4] + "****" if len(str(x)) > 4 else "****")\<close>

  The cells read from the sheet are strings already, so \<open>str(x)\<close> is \<open>x\<close>.
\<close>

definition mask_contact :: "pystr \<Rightarrow> pystr" where
  "mask_contact x =
     (if length x > 4 then take (length x - 4) x @ ustr ''****'' else ustr ''****'')"

text \<open>
  Lines 177 to 181: the table shown, or \<open>None\<close> for the note that no donors are
  available.
\<close>

definition donor_list_view :: "donor list \<Rightarrow> donor list option" where
  "donor_list_view df =
     (if df \<noteq> [] then Some (map (\<lambda>d. d\<lparr>contact := mask_contact (contact d)\<rparr>) df)
      else None)"

section \<open>The export filter\<close>

text \<open>
  Lines 212 to 219. \<open>blood_group\<close> is the select box's value, \<open>selected_locations\<close> the
  multiselect's list.
\<close>

definition filtered_df :: "donor list \<Rightarrow> pystr \<Rightarrow> pystr list \<Rightarrow> donor list" where
  "filtered_df df bg selected_locations =
     (let f1 = (if bg \<noteq> ustr ''All'' then filter (\<lambda>d. blood_group d = bg) df else df)
      in if ustr ''All Locations'' \<notin> set selected_locations
         then (if selected_locations \<noteq> []
               then filter (\<lambda>d. location d \<in> set selected_locations) f1
               else f1)
         else f1)"

section \<open>The spreadsheet and the state of the service\<close>

text \<open>
  A worksheet is the list of rows that \<open>get_all_values()\<close> returns, row 1 first, every
  cell a string. \<open>sheet\<close> and \<open>log_sheet\<close> are \<open>None\<close> when no client could be
  built (lines 53 to 61). \<open>smtp_attempts\<close> records every SMTP session the service
  opens: to whom, and with which attachment.
\<close>

type_synonym grid = "pystr list list"

record mail =
  rcpt :: pystr
  attachment :: pystr

record state =
  sheet :: "grid option"
  log_sheet :: "grid option"
  smtp_attempts :: "mail list"

text \<open>
  \<open>worksheet.update("A{r}:E{r}", [cells])\<close> overwrites the leading cells of row \<open>r\<close>
  (rows are numbered from 1, and every caller passes \<open>r \<ge> 1\<close>); a row past the end
  extends the sheet. \<open>worksheet.delete_rows(r)\<close> removes row \<open>r\<close>, and the rows below
  move up. The sheet gives the cells back as they were written: strings as they are,
  a number as its decimal numeral.
\<close>

definition worksheet_update :: "grid \<Rightarrow> nat \<Rightarrow> pystr list \<Rightarrow> grid" where
  "worksheet_update g r cells =
     (if r - 1 < length g
      then g[r - 1 := cells @ drop (length cells) (g ! (r - 1))]
      else g @ replicate (r - 1 - length g) [] @ [cells])"


text \<open>
  \<open>pd.DataFrame(rows, columns=expected_headers)\<close> with the five headers: each row
  becomes a donor record, and pandas raises \<open>ValueError\<close> unless the rows have five
  cells.
\<close>

fun donor_of_row :: "pystr list \<Rightarrow> donor option" where
  "donor_of_row [a, b, c, d, e] =
     Some \<lparr> name = a, age = b, blood_group = c, contact = d, location = e \<rparr>"
| "donor_of_row _ = None"

definition row_of_donor :: "donor \<Rightarrow> pystr list" where
  "row_of_donor d = [name d, age d, blood_group d, contact d, location d]"

definition DataFrame :: "grid \<Rightarrow> error + donor list" where
  "DataFrame rows =
     (case those (map donor_of_row rows) of None \<Rightarrow> Inl ValueError | Some df \<Rightarrow> Inr df)"

text \<open>Lines 68 to 75.\<close>

definition get_donors :: "state \<Rightarrow> error + donor list" where
  "get_donors st =
     (case sheet st of
        None \<Rightarrow> Inr []
      | Some values \<Rightarrow> if length values > 1 then DataFrame (tl values) else Inr [])"

text \<open>Lines 77 to 83: both do nothing without a sheet.\<close>

definition update_donor :: "state \<Rightarrow> nat \<Rightarrow> pystr list \<Rightarrow> state" where
  "update_donor st row_index new_values =
     (case sheet st of
        None \<Rightarrow> st
      | Some g \<Rightarrow> st\<lparr>sheet := Some (worksheet_update g row_index new_values)\<rparr>)"


text \<open>
  The duplicate test of the add and update paths:
  \<^verbatim>\<open>df[(df["name"].str.lower() == name.lower()) & (df["contact"] == contact)]\<close>
\<close>

definition duplicate_rows :: "runtime \<Rightarrow> donor list \<Rightarrow> pystr \<Rightarrow> pystr \<Rightarrow> donor list" where
  "duplicate_rows py df nm ct =
     filter (\<lambda>d. str_lower py (name d) = str_lower py nm \<and> contact d = ct) df"

section \<open>Adding a donor\<close>





section \<open>Donor management: update and delete\<close>

text \<open>
  \<open>df.iloc[i]\<close> for an index the caller has checked against \<open>len(df)\<close>; a negative
  index counts from the end.
\<close>

definition iloc :: "'a list \<Rightarrow> int \<Rightarrow> 'a" where
  "iloc xs i = (if i < 0 then xs ! nat (int (length xs) + i) else xs ! nat i)"

text \<open>
  Lines 253 to 284. \<open>row_index\<close> comes from a number input with \<open>min_value=1\<close>. The select
  box for the blood group is built with
  \<^verbatim>\<open>index=[...].index(donor["blood_group"])\<close>, which raises \<open>ValueError\<close> when
  the stored group is not one of the eight options. \<open>clicked\<close> is the Apply Update
  button. The table is read once more after the write (line 276); that value is not
  used again.
\<close>

datatype update_report =
  Invalid_Index | Form_Shown | Invalid_Values | Conflict_Rejected | Updated

definition update_view ::
  "runtime \<Rightarrow> state \<Rightarrow> nat \<Rightarrow> pystr \<Rightarrow> pystr \<Rightarrow> pystr \<Rightarrow> pystr \<Rightarrow> pystr \<Rightarrow> bool
     \<Rightarrow> (error + update_report) \<times> state" where
  "update_view py st row_index new_name new_age new_blood new_contact new_location clicked =
     (case get_donors st of
        Inl e \<Rightarrow> (Inl e, st)
      | Inr df \<Rightarrow>
          if df \<noteq> [] \<and> row_index \<le> length df then
            (let donor = iloc df (int row_index - 1) in
             if blood_group donor \<notin> set blood_groups_options then (Inl ValueError, st)
             else if clicked then
               (if new_name \<noteq> [] \<and> isdigit py new_age \<and> new_contact \<noteq> [] \<and> new_location \<noteq> []
                then
                  (if duplicate_rows py df new_name new_contact \<noteq> []
                      \<and> \<not> (str_lower py (name donor) = str_lower py new_name
                             \<and> contact donor = new_contact)
                   then (Inr Conflict_Rejected, st)
                   else
                     (case py_int py new_age of
                        Inl e \<Rightarrow> (Inl e, st)
                      | Inr n \<Rightarrow>
                          (Inr Updated,
                           update_donor st (row_index + 1)
                             [new_name, py_str n, new_blood, new_contact, new_location])))
                else (Inr Invalid_Values, st))
             else (Inr Form_Shown, st))
          else (Inr Invalid_Index, st))"



section \<open>Export by email\<close>

text \<open>
  \<open>filtered_df.to_csv(index=False)\<close>: the header line, then one line per row, each
  ended by \<open>os.linesep\<close>. Fields are separated by commas; the writer quotes a field
  (doubling the quotes inside it) only when it contains a comma, a quote or a line
  break.
\<close>

definition expected_headers :: "pystr list" where
  "expected_headers =
     [ustr ''name'', ustr ''age'', ustr ''blood_group'', ustr ''contact'', ustr ''location'']"

definition csv_needs_quote :: "pystr \<Rightarrow> pystr \<Rightarrow> bool" where
  "csv_needs_quote lt f = list_ex (\<lambda>c. c = 44 \<or> c = 34 \<or> c = 10 \<or> c = 13 \<or> c \<in> set lt) f"

definition csv_field :: "pystr \<Rightarrow> pystr \<Rightarrow> pystr" where
  "csv_field lt f =
     (if csv_needs_quote lt f
      then [34] @ concat (map (\<lambda>c. if c = 34 then [34, 34] else [c]) f) @ [34]
      else f)"

definition csv_line :: "pystr \<Rightarrow> pystr list \<Rightarrow> pystr" where
  "csv_line lt cells = join [44] (map (csv_field lt) cells) @ lt"

definition to_csv :: "runtime \<Rightarrow> donor list \<Rightarrow> pystr" where
  "to_csv py df = concat (map (csv_line (os_linesep py)) (expected_headers # map row_of_donor df))"

text \<open>
  What lies outside the program: whether \<open>validate_email\<close> returns normally for an
  address, the sender's credentials, whether the SMTP session succeeds, and the
  clock.
\<close>

record env =
  validate_email :: "pystr \<Rightarrow> bool"
  email_credentials :: "(pystr \<times> pystr) option"
  smtp_delivers :: bool
  now :: pystr

datatype notice =
  Err_Provide_Email | Warn_Confirm | Err_Invalid_Email | Err_No_Credentials
  | Err_Send_Failed | Ok_Email_Sent | Ok_List_Sent

text \<open>
  Lines 91 to 122. Every exception is caught inside, so \<open>send_email\<close> always returns.
\<close>

definition send_email :: "env \<Rightarrow> state \<Rightarrow> pystr \<Rightarrow> pystr \<Rightarrow> notice list \<times> state" where
  "send_email ev st recipient csv_data =
     (if \<not> validate_email ev recipient then ([Err_Invalid_Email], st)
      else
        (case email_credentials ev of
           None \<Rightarrow> ([Err_No_Credentials], st)
         | Some (sender, password) \<Rightarrow>
             if sender = [] \<or> password = [] then ([Err_No_Credentials], st)
             else
               (let st1 = st\<lparr>smtp_attempts :=
                              smtp_attempts st @ [\<lparr> rcpt = recipient, attachment = csv_data \<rparr>]\<rparr>
                in if smtp_delivers ev then ([Ok_Email_Sent], st1)
                   else ([Err_Send_Failed], st1))))"

text \<open>
  Lines 187 to 240. The handler's own success notice follows every return of
  \<open>send_email\<close>, and the log row is written after the \<open>try\<close> block, whatever happened
  in it.
\<close>

definition log_row :: "env \<Rightarrow> pystr \<Rightarrow> pystr \<Rightarrow> pystr list \<Rightarrow> pystr list" where
  "log_row ev email_address bg selected_locations =
     [email_address, bg,
      (if selected_locations \<noteq> [] then join (ustr '', '') selected_locations
       else ustr ''All Locations''),
      now ev]"

definition download_email_form ::
  "runtime \<Rightarrow> env \<Rightarrow> state \<Rightarrow> pystr \<Rightarrow> pystr \<Rightarrow> pystr list \<Rightarrow> bool \<Rightarrow> bool
     \<Rightarrow> (error + notice list) \<times> state" where
  "download_email_form py ev st email_address bg selected_locations confirm_send submitted =
     (case get_donors st of
        Inl e \<Rightarrow> (Inl e, st)
      | Inr df \<Rightarrow>
          if submitted then
            (if email_address = [] then (Inr [Err_Provide_Email], st)
             else if \<not> confirm_send then (Inr [Warn_Confirm], st)
             else
               (let csv_data = to_csv py (filtered_df df bg selected_locations);
                    (notices, st1) = send_email ev st email_address csv_data;
                    row_data = log_row ev email_address bg selected_locations
                in case log_sheet st1 of
                     None \<Rightarrow> (Inl AttributeError, st1)
                   | Some lg \<Rightarrow>
                       (Inr (notices @ [Ok_List_Sent]),
                        st1\<lparr>log_sheet := Some (worksheet_update lg (length lg + 1) row_data)\<rparr>)))
          else (Inr [], st))"

section \<open>Reading the export back\<close>

text \<open>
  Modelled from the spec: the repository only writes the export; nothing in it parses
  one. The spec speaks of "parsing it back" from "the delimited format", so the reader
  below is the usual one for that format: comma-separated fields, double quotes around
  a field with a doubled quote standing for one quote, a record ended by LF, CR or
  CR LF, blank lines skipped. The first record must be the header line; the others
  become donor records by position.
\<close>

datatype csv_state = Start_Record | Start_Field | In_Field | In_Quoted | Quote_In_Quoted | Eat_CRNL

text \<open>
  One character: the new state, the field and the record collected so far, and the
  record completed by this character, if any.
\<close>

definition csv_plain ::
  "pystr \<Rightarrow> pystr list \<Rightarrow> pychar \<Rightarrow> csv_state \<times> pystr \<times> pystr list \<times> pystr list option" where
  "csv_plain fld rcd c =
     (if c = 44 then (Start_Field, [], rcd @ [fld], None)
      else if c = 10 then (Start_Record, [], [], Some (rcd @ [fld]))
      else if c = 13 then (Eat_CRNL, [], [], Some (rcd @ [fld]))
      else (In_Field, fld @ [c], rcd, None))"

definition csv_start ::
  "pystr list \<Rightarrow> pychar \<Rightarrow> csv_state \<times> pystr \<times> pystr list \<times> pystr list option" where
  "csv_start rcd c =
     (if c = 34 then (In_Quoted, [], rcd, None) else csv_plain [] rcd c)"

definition csv_step ::
  "csv_state \<Rightarrow> pystr \<Rightarrow> pystr list \<Rightarrow> pychar
     \<Rightarrow> csv_state \<times> pystr \<times> pystr list \<times> pystr list option" where
  "csv_step s fld rcd c =
     (case s of
        Start_Record \<Rightarrow>
          if c = 10 \<or> c = 13 then (Start_Record, [], [], None) else csv_start [] c
      | Eat_CRNL \<Rightarrow>
          if c = 10 \<or> c = 13 then (Start_Record, [], [], None) else csv_start [] c
      | Start_Field \<Rightarrow> csv_start rcd c
      | In_Field \<Rightarrow> csv_plain fld rcd c
      | In_Quoted \<Rightarrow>
          if c = 34 then (Quote_In_Quoted, fld, rcd, None) else (In_Quoted, fld @ [c], rcd, None)
      | Quote_In_Quoted \<Rightarrow>
          if c = 34 then (In_Quoted, fld @ [34], rcd, None) else csv_plain fld rcd c)"

fun csv_run :: "csv_state \<Rightarrow> pystr \<Rightarrow> pystr list \<Rightarrow> pystr \<Rightarrow> grid" where
  "csv_run s fld rcd [] =
     (if s = Start_Record \<or> s = Eat_CRNL then [] else [rcd @ [fld]])"
| "csv_run s fld rcd (c # cs) =
     (case csv_step s fld rcd c of
        (s', fld', rcd', None) \<Rightarrow> csv_run s' fld' rcd' cs
      | (s', fld', rcd', Some r) \<Rightarrow> r # csv_run s' fld' rcd' cs)"

definition read_csv :: "pystr \<Rightarrow> error + donor list" where
  "read_csv text =
     (case csv_run Start_Record [] [] text of
        [] \<Rightarrow> Inl ValueError
      | header # rows \<Rightarrow> if header = expected_headers then DataFrame rows else Inl ValueError)"

section \<open>Notions of the specification, and sample data\<close>


text \<open>
  The uniqueness invariant: no two rows share the pair of lower-cased name and
  contact.
\<close>

definition donor_key :: "runtime \<Rightarrow> donor \<Rightarrow> pystr \<times> pystr" where
  "donor_key py d = (str_lower py (name d), contact d)"


text \<open>The record that a write of five cells, with the age as a number, leaves in a row.\<close>

definition new_donor :: "pystr \<Rightarrow> nat \<Rightarrow> pystr \<Rightarrow> pystr \<Rightarrow> pystr \<Rightarrow> donor" where
  "new_donor nm n bg ct loc =
     \<lparr> name = nm, age = py_str n, blood_group = bg, contact = ct, location = loc \<rparr>"

text \<open>
  The donor data model, in the words of the round-trip property: names of alphabetic
  characters and spaces, ages of digits, one of the eight blood groups, contacts of ten
  digits, alphabetic locations.
\<close>

definition donor_model :: "runtime \<Rightarrow> donor \<Rightarrow> bool" where
  "donor_model py d =
     (list_all (\<lambda>c. ch_isalpha py c \<or> c = 32) (name d)
      \<and> list_all (ch_isdigit py) (age d)
      \<and> blood_group d \<in> set blood_groups_options
      \<and> list_all (ch_isdigit py) (contact d) \<and> length (contact d) = 10
      \<and> list_all (ch_isalpha py) (location d))"

text \<open>The characters that end a field for the reader: comma, LF and CR.\<close>

definition csv_end :: "pychar \<Rightarrow> bool" where
  "csv_end t = (t = 44 \<or> t = 10 \<or> t = 13)"

text \<open>A small sheet with two donors, an empty log, and an environment to run in.\<close>

definition ann :: donor where
  "ann = \<lparr> name = ustr ''Ann Lee'', age = ustr ''30'', blood_group = ustr ''O+'',
           contact = ustr ''0123456789'', location = ustr ''Kochi'' \<rparr>"

definition bob :: donor where
  "bob = \<lparr> name = ustr ''Bob'', age = ustr ''41'', blood_group = ustr ''A-'',
           contact = ustr ''9876543210'', location = ustr ''Delhi'' \<rparr>"

definition demo_log :: grid where
  "demo_log = [[ustr ''recipient'', ustr ''blood_group_filter'', ustr ''location_filter'',
                ustr ''timestamp'']]"

definition demo_state :: state where
  "demo_state = \<lparr> sheet = Some [expected_headers, row_of_donor ann, row_of_donor bob],
                  log_sheet = Some demo_log, smtp_attempts = [] \<rparr>"

text \<open>
  \<open>email_validator\<close> refuses every address that does not have exactly one at-sign;
  the sample environment checks that much.
\<close>

definition one_at_sign :: "pystr \<Rightarrow> bool" where
  "one_at_sign s = (length (filter (\<lambda>c. c = 64) s) = 1)"

definition demo_env :: env where
  "demo_env = \<lparr> validate_email = one_at_sign,
                email_credentials = Some (ustr ''bank@example.org'', ustr ''secret''),
                smtp_delivers = True, now = ustr ''2024-01-01 10:00:00'' \<rparr>"

section \<open>Auxiliary facts\<close>

lemma donor_of_row_iff: "donor_of_row r = Some d \<longleftrightarrow> r = row_of_donor d"
proof (cases d)
  case (fields a b c e f)
  then show ?thesis
    by (cases r rule: donor_of_row.cases) (auto simp: row_of_donor_def)
qed

lemma those_donor_rows:
  "those (map donor_of_row rows) = Some df \<longleftrightarrow> rows = map row_of_donor df"
proof (induction rows arbitrary: df)
  case Nil
  then show ?case by auto
next
  case (Cons r rows)
  show ?case
  proof (cases "donor_of_row r")
    case None
    then have "r \<noteq> row_of_donor d" for d
      using donor_of_row_iff[of r d] by simp
    then show ?thesis using None by (cases df) auto
  next
    case (Some d)
    then have r: "r = row_of_donor d" by (simp add: donor_of_row_iff)
    have inj: "row_of_donor d = row_of_donor d' \<longleftrightarrow> d = d'" for d'
      using donor_of_row_iff[of "row_of_donor d" d'] donor_of_row_iff[of "row_of_donor d" d]
      by auto
    show ?thesis using Some Cons[of "tl df"] r inj
      by (cases df) (auto split: option.splits)
  qed
qed

lemma DataFrame_iff: "DataFrame rows = Inr df \<longleftrightarrow> rows = map row_of_donor df"
  using those_donor_rows[of rows df] by (auto simp: DataFrame_def split: option.splits)

lemma decimal_is_digit: "list_all (ch_isdecimal py) s \<Longrightarrow> list_all (ch_isdigit py) s"
  by (induction s) (auto simp: ch_isdecimal_def ch_isdigit_def split: numeric_type.splits)


lemma mask_contact_fixed:
  "mask_contact c = c \<longleftrightarrow> drop (length c - 4) c = ustr ''****''"
proof (cases "length c > 4")
  case True
  have "c = take (length c - 4) c @ drop (length c - 4) c" by simp
  then have "(take (length c - 4) c @ ustr ''****'' = c) = (drop (length c - 4) c = ustr ''****'')"
    by (metis same_append_eq)
  then show ?thesis using True by (simp add: mask_contact_def)
next
  case False
  then show ?thesis by (auto simp: mask_contact_def)
qed

section \<open>The age validator\<close>




text \<open>
  C4: the validation step does not return for every input. \<open>isdigit\<close> lets the
  superscript two (U+00B2) through, \<open>int\<close> refuses it, and the \<open>ValueError\<close> leaves the
  validation step with no verdict on any field.
\<close>

theorem validate_superscript_age_raises:
  "validate cpython (ustr ''Ann'') [178] (ustr ''O+'') (ustr ''0123456789'') (ustr ''Kochi'')
     = Inl ValueError"
  by (simp add: validate_def age_valid_def isdigit_def ch_isdigit_def cpython_def
      latin1_numeric_def py_int_def ch_isdecimal_def)

section \<open>Reading the donor table\<close>

text \<open>
  C6: without a sheet, and for a sheet of at most the header row, \<open>get_donors\<close> returns
  the empty table; for a sheet with a header row it returns \<open>df\<close> exactly when the rows
  below the header are the records of \<open>df\<close>, in order.
\<close>

theorem get_donors_rows:
  "(sheet st = None \<longrightarrow> get_donors st = Inr [])
   \<and> (\<forall>values. sheet st = Some values \<and> length values \<le> 1 \<longrightarrow> get_donors st = Inr [])
   \<and> (\<forall>header rows df. sheet st = Some (header # rows)
         \<longrightarrow> (get_donors st = Inr df \<longleftrightarrow> rows = map row_of_donor df))"
  by (auto simp: get_donors_def DataFrame_iff)

theorem get_donors_rows_witness:
  "get_donors (demo_state\<lparr>sheet := None\<rparr>) = Inr []
   \<and> get_donors (demo_state\<lparr>sheet := Some [expected_headers]\<rparr>) = Inr []
   \<and> get_donors demo_state = Inr [ann, bob]"
  using get_donors_rows[of "demo_state\<lparr>sheet := None\<rparr>"]
    get_donors_rows[of "demo_state\<lparr>sheet := Some [expected_headers]\<rparr>"]
    get_donors_rows[of demo_state]
  by (simp add: demo_state_def)

section \<open>The export filter and the list view\<close>

lemma filtered_df_filter:
  "filtered_df df bg sel =
     filter (\<lambda>d. (bg \<noteq> ustr ''All'' \<longrightarrow> blood_group d = bg)
                \<and> (sel \<noteq> [] \<and> ustr ''All Locations'' \<notin> set sel \<longrightarrow> location d \<in> set sel)) df"
  by (auto simp: filtered_df_def Let_def intro: filter_cong)

text \<open>
  C7: the export filter keeps exactly the rows whose blood group is the selected one,
  unless the selection is \<open>All\<close>, and whose location is among the selected ones, unless
  none is selected or \<open>All Locations\<close> is among them. On the three donors A (O+, Loc1),
  B (O-, Loc2) and C (O+, Loc2): group O+ keeps A and C, location Loc2 keeps B and C,
  both keep C.
\<close>

theorem export_filter_keeps_exactly:
  "filtered_df df bg sel =
     filter (\<lambda>d. (bg \<noteq> ustr ''All'' \<longrightarrow> blood_group d = bg)
                \<and> (sel \<noteq> [] \<and> ustr ''All Locations'' \<notin> set sel \<longrightarrow> location d \<in> set sel)) df
   \<and> (let A = \<lparr> name = ustr ''A'', age = a1, blood_group = ustr ''O+'', contact = c1,
                 location = ustr ''Loc1'' \<rparr>;
           B = \<lparr> name = ustr ''B'', age = a2, blood_group = ustr ''O-'', contact = c2,
                 location = ustr ''Loc2'' \<rparr>;
           C = \<lparr> name = ustr ''C'', age = a3, blood_group = ustr ''O+'', contact = c3,
                 location = ustr ''Loc2'' \<rparr>
       in filtered_df [A, B, C] (ustr ''O+'') [] = [A, C]
          \<and> filtered_df [A, B, C] (ustr ''All'') [ustr ''Loc2''] = [B, C]
          \<and> filtered_df [A, B, C] (ustr ''O+'') [ustr ''Loc2''] = [C])"
proof -
  have e: "ustr ''O+'' \<noteq> ustr ''All''" "ustr ''O-'' \<noteq> ustr ''O+''"
    "ustr ''Loc1'' \<noteq> ustr ''Loc2''" "ustr ''All Locations'' \<noteq> ustr ''Loc2''"
    by (simp_all add: ustr_def)
  have "let A = \<lparr> name = ustr ''A'', age = a1, blood_group = ustr ''O+'', contact = c1,
                 location = ustr ''Loc1'' \<rparr>;
           B = \<lparr> name = ustr ''B'', age = a2, blood_group = ustr ''O-'', contact = c2,
                 location = ustr ''Loc2'' \<rparr>;
           C = \<lparr> name = ustr ''C'', age = a3, blood_group = ustr ''O+'', contact = c3,
                 location = ustr ''Loc2'' \<rparr>
       in filtered_df [A, B, C] (ustr ''O+'') [] = [A, C]
          \<and> filtered_df [A, B, C] (ustr ''All'') [ustr ''Loc2''] = [B, C]
          \<and> filtered_df [A, B, C] (ustr ''O+'') [ustr ''Loc2''] = [C]"
    using e by (simp add: filtered_df_def Let_def)
  then show ?thesis using filtered_df_filter[of df bg sel] by simp
qed

theorem export_filter_keeps_exactly_witness:
  "filtered_df [ann, bob] (ustr ''O+'') [ustr ''Kochi'', ustr ''Delhi''] = [ann]
   \<and> filtered_df [ann, bob] (ustr ''All'') [ustr ''Delhi''] = [bob]
   \<and> filtered_df [ann, bob] (ustr ''All'') [ustr ''All Locations'', ustr ''Delhi''] = [ann, bob]"
proof -
  have e: "ustr ''O+'' \<noteq> ustr ''All''" "ustr ''A-'' \<noteq> ustr ''O+''"
    "ustr ''Kochi'' \<noteq> ustr ''Delhi''" "ustr ''All Locations'' \<noteq> ustr ''Delhi''"
    "ustr ''All Locations'' \<noteq> ustr ''Kochi''"
    by (simp_all add: ustr_def)
  have f: "blood_group ann = ustr ''O+''" "blood_group bob = ustr ''A-''"
    "location ann = ustr ''Kochi''" "location bob = ustr ''Delhi''"
    by (simp_all add: ann_def bob_def)
  have 1: "filtered_df [ann, bob] (ustr ''O+'') [ustr ''Kochi'', ustr ''Delhi''] = [ann]"
    using export_filter_keeps_exactly[of "[ann, bob]" "ustr ''O+''" "[ustr ''Kochi'', ustr ''Delhi'']"]
    by (simp add: e f)
  have 2: "filtered_df [ann, bob] (ustr ''All'') [ustr ''Delhi''] = [bob]"
    using export_filter_keeps_exactly[of "[ann, bob]" "ustr ''All''" "[ustr ''Delhi'']"]
    by (simp add: e f)
  have 3: "filtered_df [ann, bob] (ustr ''All'') [ustr ''All Locations'', ustr ''Delhi''] = [ann, bob]"
    using export_filter_keeps_exactly[of "[ann, bob]" "ustr ''All''" "[ustr ''All Locations'', ustr ''Delhi'']"]
    by (simp add: e f)
  show ?thesis using 1 2 3 by simp
qed

lemma list_view_contact:
  "donor_list_view df = Some view \<Longrightarrow> i < length df \<Longrightarrow>
     length view = length df \<and> contact (view ! i) = mask_contact (contact (df ! i))"
  by (cases "df = []") (auto simp: donor_list_view_def)

text \<open>
  C10, as the code has it: in the donor list every contact is shown masked. A
  contact of more than four characters keeps all but its last four, which become
  \<open>****\<close>; a shorter one is shown as \<open>****\<close>. What is shown is the full contact exactly
  when the contact itself ends in \<open>****\<close>.
\<close>

theorem list_view_masks_contacts:
  "donor_list_view df = Some view \<Longrightarrow> i < length df \<Longrightarrow>
     length view = length df
     \<and> (4 < length (contact (df ! i))
          \<longrightarrow> contact (view ! i)
              = take (length (contact (df ! i)) - 4) (contact (df ! i)) @ ustr ''****'')
     \<and> (length (contact (df ! i)) \<le> 4 \<longrightarrow> contact (view ! i) = ustr ''****'')
     \<and> (contact (view ! i) = contact (df ! i)
          \<longleftrightarrow> drop (length (contact (df ! i)) - 4) (contact (df ! i)) = ustr ''****'')"
proof -
  assume a: "donor_list_view df = Some view" "i < length df"
  have m: "contact (view ! i) = mask_contact (contact (df ! i))" "length view = length df"
    using list_view_contact[OF a] by simp_all
  show ?thesis
    unfolding m mask_contact_fixed by (simp add: mask_contact_def)
qed

theorem list_view_masks_contacts_witness:
  "donor_list_view [ann, bob] = Some [ann\<lparr>contact := ustr ''012345****''\<rparr>, bob\<lparr>contact := ustr ''987654****''\<rparr>]
   \<and> contact ([ann\<lparr>contact := ustr ''012345****''\<rparr>, bob\<lparr>contact := ustr ''987654****''\<rparr>] ! 1) \<noteq> contact ([ann, bob] ! 1)"
proof -
  have v: "donor_list_view [ann, bob] = Some [ann\<lparr>contact := ustr ''012345****''\<rparr>, bob\<lparr>contact := ustr ''987654****''\<rparr>]"
    by (simp add: donor_list_view_def mask_contact_def ann_def bob_def ustr_def)
  have i: "(1::nat) < length [ann, bob]" by simp
  have "drop (length (contact ([ann, bob] ! 1)) - 4) (contact ([ann, bob] ! 1)) \<noteq> ustr ''****''"
    by (simp add: bob_def ustr_def)
  then show ?thesis using v list_view_masks_contacts[OF v i]
    by blast
qed

text \<open>
  A stored contact that is \<open>****\<close>, or ends in it, is shown in full.
\<close>

theorem list_view_shows_starred_contact_in_full:
  "donor_list_view [ann\<lparr>contact := ustr ''****''\<rparr>] = Some [ann\<lparr>contact := ustr ''****''\<rparr>]
   \<and> donor_list_view [ann\<lparr>contact := ustr ''98765*****''\<rparr>] = Some [ann\<lparr>contact := ustr ''98765*****''\<rparr>]"
  by (simp add: donor_list_view_def mask_contact_def ustr_def)

section \<open>Export requests with an invalid address\<close>

lemma send_email_invalid:
  "\<not> validate_email ev r \<Longrightarrow> send_email ev st r csv = ([Err_Invalid_Email], st)"
  by (simp add: send_email_def)

lemma worksheet_update_append: "worksheet_update g (Suc (length g)) cells = g @ [cells]"
  by (simp add: worksheet_update_def)

text \<open>
  C1, as the code has it: a submitted export request whose address fails the validity
  check opens no SMTP session. An empty address is turned away with an error, and an
  unconfirmed request with a warning, before anything else happens. For a non-empty
  invalid address on a confirmed request the invalid-address error is reported, and the
  request is still logged: one row for it is appended to the log table.
\<close>

theorem invalid_email_is_logged:
  assumes "\<not> validate_email ev email_address" and "get_donors st = Inr df"
  shows "(email_address = []
            \<longrightarrow> download_email_form py ev st email_address bg sel confirm True
                = (Inr [Err_Provide_Email], st))
         \<and> (email_address \<noteq> []
            \<longrightarrow> download_email_form py ev st email_address bg sel False True
                = (Inr [Warn_Confirm], st))
         \<and> (email_address \<noteq> [] \<and> log_sheet st = Some lg
            \<longrightarrow> (\<exists>notices. fst (download_email_form py ev st email_address bg sel True True)
                              = Inr notices
                            \<and> Err_Invalid_Email \<in> set notices)
              \<and> snd (download_email_form py ev st email_address bg sel True True)
                  = st\<lparr>log_sheet := Some (lg @ [log_row ev email_address bg sel])\<rparr>
              \<and> smtp_attempts (snd (download_email_form py ev st email_address bg sel True True))
                  = smtp_attempts st)"
proof -
  have 1: "email_address = [] \<Longrightarrow> download_email_form py ev st email_address bg sel confirm True
                = (Inr [Err_Provide_Email], st)"
    using assms(2) by (simp add: download_email_form_def)
  have 2: "email_address \<noteq> [] \<Longrightarrow> download_email_form py ev st email_address bg sel False True
                = (Inr [Warn_Confirm], st)"
    using assms(2) by (simp add: download_email_form_def)
  have 3: "download_email_form py ev st email_address bg sel True True
                = (Inr [Err_Invalid_Email, Ok_List_Sent],
                   st\<lparr>log_sheet := Some (lg @ [log_row ev email_address bg sel])\<rparr>)"
    if "email_address \<noteq> []" "log_sheet st = Some lg"
    using that assms(2) send_email_invalid[OF assms(1)]
    by (simp add: download_email_form_def worksheet_update_append Let_def)
  show ?thesis using 1 2 3 by simp
qed

lemma get_donors_demo: "get_donors demo_state = Inr [ann, bob]"
  by (simp add: get_donors_def demo_state_def DataFrame_iff)

theorem invalid_email_is_logged_witness:
  "(\<exists>notices. fst (download_email_form cpython demo_env demo_state (ustr ''not-an-email'')
                    (ustr ''All'') [] True True) = Inr notices
             \<and> Err_Invalid_Email \<in> set notices)
   \<and> snd (download_email_form cpython demo_env demo_state (ustr ''not-an-email'')
            (ustr ''All'') [] True True)
       = demo_state\<lparr>log_sheet :=
           Some (demo_log @ [log_row demo_env (ustr ''not-an-email'') (ustr ''All'') []])\<rparr>
   \<and> download_email_form cpython demo_env demo_state [] (ustr ''All'') [] True True
       = (Inr [Err_Provide_Email], demo_state)"
proof -
  have a: "\<not> validate_email demo_env (ustr ''not-an-email'')"
    by (simp add: demo_env_def one_at_sign_def ustr_def)
  have a': "\<not> validate_email demo_env []"
    by (simp add: demo_env_def one_at_sign_def ustr_def)
  have c: "log_sheet demo_state = Some demo_log" by (simp add: demo_state_def)
  have d: "ustr ''not-an-email'' \<noteq> []" by (simp add: ustr_def)
  show ?thesis
    using invalid_email_is_logged[OF a get_donors_demo, of cpython "ustr ''All''" "[]" True demo_log]
      invalid_email_is_logged[OF a' get_donors_demo, of cpython "ustr ''All''" "[]" True demo_log] c d
    by simp
qed

text \<open>
  The address \<open>not-an-email\<close> is refused, and the log table has one more row afterwards.
\<close>

theorem invalid_email_log_grows:
  "\<not> validate_email demo_env (ustr ''not-an-email'')
   \<and> log_sheet demo_state = Some demo_log
   \<and> log_sheet (snd (download_email_form cpython demo_env demo_state (ustr ''not-an-email'')
                      (ustr ''All'') [] True True))
     = Some (demo_log @ [[ustr ''not-an-email'', ustr ''All'', ustr ''All Locations'',
                          ustr ''2024-01-01 10:00:00'']])"
proof -
  have a: "\<not> validate_email demo_env (ustr ''not-an-email'')"
    by (simp add: demo_env_def one_at_sign_def ustr_def)
  have c: "log_sheet demo_state = Some demo_log" by (simp add: demo_state_def)
  have d: "ustr ''not-an-email'' \<noteq> []" by (simp add: ustr_def)
  have n: "now demo_env = ustr ''2024-01-01 10:00:00''" by (simp add: demo_env_def)
  have "log_sheet (snd (download_email_form cpython demo_env demo_state (ustr ''not-an-email'')
                      (ustr ''All'') [] True True))
     = Some (demo_log @ [[ustr ''not-an-email'', ustr ''All'', ustr ''All Locations'',
                          ustr ''2024-01-01 10:00:00'']])"
    using get_donors_demo c d n send_email_invalid[OF a]
    by (simp add: download_email_form_def worksheet_update_append Let_def log_row_def)
  with a c show ?thesis by simp
qed

section \<open>Uniqueness of the donor table\<close>


lemma get_donors_nonempty:
  "get_donors st = Inr df \<Longrightarrow> df \<noteq> [] \<Longrightarrow>
     \<exists>header. sheet st = Some (header # map row_of_donor df)"
  by (cases "sheet st"; cases "the (sheet st)")
     (auto simp: get_donors_def DataFrame_iff split: if_splits)

lemma get_donors_header_rows:
  "sheet st = Some (header # map row_of_donor df) \<Longrightarrow> get_donors st = Inr df"
  by (auto simp: get_donors_def DataFrame_iff)





lemma row_of_new_donor: "[nm, py_str n, bg, ct, loc] = row_of_donor (new_donor nm n bg ct loc)"
  by (simp add: row_of_donor_def new_donor_def)






lemma iloc_row: "1 \<le> row_index \<Longrightarrow> iloc df (int row_index - 1) = df ! (row_index - 1)"
  by (cases row_index) (auto simp: iloc_def)

lemma length_row_of_donor: "length (row_of_donor d) = 5"
  by (simp add: row_of_donor_def)


lemma get_donors_after_update:
  assumes "get_donors st = Inr df" and "df \<noteq> []" and "row_index \<le> length df"
  shows "get_donors (update_donor st (row_index + 1) (row_of_donor d))
           = Inr (if row_index = 0 then df else df[row_index - 1 := d])"
proof -
  obtain header where s: "sheet st = Some (header # map row_of_donor df)"
    using get_donors_nonempty[OF assms(1,2)] by blast
  show ?thesis
  proof (cases row_index)
    case 0
    then show ?thesis using s assms(2)
      by (simp add: update_donor_def worksheet_update_def get_donors_def DataFrame_iff)
  next
    case (Suc k)
    then have k: "k < length df" using assms(3) by simp
    have "worksheet_update (header # map row_of_donor df) (row_index + 1) (row_of_donor d)
            = header # map row_of_donor (df[k := d])"
      using Suc k by (simp add: worksheet_update_def length_row_of_donor map_update)
    then show ?thesis using s Suc assms(2)
      by (simp add: update_donor_def get_donors_header_rows)
  qed
qed










section \<open>Updating a record\<close>

lemma py_int_isdigit: "py_int py s = Inr n \<Longrightarrow> isdigit py s"
  using decimal_is_digit[of py s] by (auto simp: py_int_def isdigit_def split: if_splits)

lemma update_view_writes:
  assumes "get_donors st = Inr df" and "1 \<le> row_index" and "row_index \<le> length df"
    and "blood_group (df ! (row_index - 1)) \<in> set blood_groups_options"
    and "nn \<noteq> []" and "nc \<noteq> []" and "nl \<noteq> []" and "py_int py na = Inr n"
    and "duplicate_rows py df nn nc = []
         \<or> donor_key py (df ! (row_index - 1)) = (str_lower py nn, nc)"
  shows "update_view py st row_index nn na nb nc nl True
           = (Inr Updated, update_donor st (row_index + 1) [nn, py_str n, nb, nc, nl])"
    and "get_donors (update_donor st (row_index + 1) [nn, py_str n, nb, nc, nl])
           = Inr (df[row_index - 1 := new_donor nn n nb nc nl])"
proof -
  have ne: "df \<noteq> []" using assms(2,3) by auto
  show "update_view py st row_index nn na nb nc nl True
           = (Inr Updated, update_donor st (row_index + 1) [nn, py_str n, nb, nc, nl])"
    using assms ne py_int_isdigit[OF assms(8)]
    by (auto simp: update_view_def Let_def iloc_row donor_key_def)
  show "get_donors (update_donor st (row_index + 1) [nn, py_str n, nb, nc, nl])
           = Inr (df[row_index - 1 := new_donor nn n nb nc nl])"
    using get_donors_after_update[OF assms(1) ne assms(3), of "new_donor nn n nb nc nl"] assms(2)
    by (simp add: row_of_new_donor)
qed

text \<open>
  C5, as the code has it: for every valid row index, an update that keeps the record's
  name up to case and its contact never ends in the duplicate-conflict rejection. The
  row is overwritten when the update passes the guard of the update path: the stored
  blood group is one of the eight options, name, contact and location are non-empty
  and \<open>int\<close> reads the age.
\<close>

theorem update_same_identity_no_conflict:
  assumes "get_donors st = Inr df" and "1 \<le> row_index" and "row_index \<le> length df"
    and "str_lower py nn = str_lower py (name (df ! (row_index - 1)))"
    and "nc = contact (df ! (row_index - 1))"
  shows "fst (update_view py st row_index nn na nb nc nl clicked) \<noteq> Inr Conflict_Rejected
       \<and> (\<forall>n. blood_group (df ! (row_index - 1)) \<in> set blood_groups_options
                \<and> nn \<noteq> [] \<and> nc \<noteq> [] \<and> nl \<noteq> [] \<and> py_int py na = Inr n
            \<longrightarrow> update_view py st row_index nn na nb nc nl True
                  = (Inr Updated, update_donor st (row_index + 1) [nn, py_str n, nb, nc, nl])
                \<and> get_donors (update_donor st (row_index + 1) [nn, py_str n, nb, nc, nl])
                  = Inr (df[row_index - 1 := \<lparr> name = nn, age = py_str n, blood_group = nb,
                                               contact = nc, location = nl \<rparr>]))"
proof (intro conjI allI impI)
  show "fst (update_view py st row_index nn na nb nc nl clicked) \<noteq> Inr Conflict_Rejected"
    using assms by (auto simp: update_view_def Let_def iloc_row split: sum.splits)
next
  fix n
  assume a: "blood_group (df ! (row_index - 1)) \<in> set blood_groups_options
                \<and> nn \<noteq> [] \<and> nc \<noteq> [] \<and> nl \<noteq> [] \<and> py_int py na = Inr n"
  have k: "duplicate_rows py df nn nc = []
         \<or> donor_key py (df ! (row_index - 1)) = (str_lower py nn, nc)"
    using assms(4,5) by (simp add: donor_key_def)
  show "update_view py st row_index nn na nb nc nl True
                  = (Inr Updated, update_donor st (row_index + 1) [nn, py_str n, nb, nc, nl])"
    using update_view_writes(1)[OF assms(1,2,3) _ _ _ _ _ k] a by blast
  show "get_donors (update_donor st (row_index + 1) [nn, py_str n, nb, nc, nl])
                  = Inr (df[row_index - 1 := \<lparr> name = nn, age = py_str n, blood_group = nb,
                                               contact = nc, location = nl \<rparr>])"
    using update_view_writes(2)[OF assms(1,2,3) _ _ _ _ _ k] a
    unfolding new_donor_def by blast
qed

theorem update_same_identity_no_conflict_witness:
  "fst (update_view cpython demo_state 1 (ustr ''ANN lee'') (ustr ''31'') (ustr ''O+'')
          (ustr ''0123456789'') (ustr ''Pune'') True) \<noteq> Inr Conflict_Rejected
   \<and> update_view cpython demo_state 1 (ustr ''ANN lee'') (ustr ''31'') (ustr ''O+'')
          (ustr ''0123456789'') (ustr ''Pune'') True
       = (Inr Updated,
          update_donor demo_state 2
            [ustr ''ANN lee'', ustr ''31'', ustr ''O+'', ustr ''0123456789'', ustr ''Pune''])
   \<and> get_donors (update_donor demo_state 2
            [ustr ''ANN lee'', ustr ''31'', ustr ''O+'', ustr ''0123456789'', ustr ''Pune''])
       = Inr [\<lparr> name = ustr ''ANN lee'', age = ustr ''31'', blood_group = ustr ''O+'',
                 contact = ustr ''0123456789'', location = ustr ''Pune'' \<rparr>, bob]"
proof -
  have r: "(1::nat) \<le> 1" "(1::nat) \<le> length [ann, bob]" by simp_all
  have l: "str_lower cpython (ustr ''ANN lee'') = str_lower cpython (name ([ann, bob] ! (1 - 1)))"
    by code_simp
  have c: "ustr ''0123456789'' = contact ([ann, bob] ! (1 - 1))"
    by code_simp
  have b: "blood_group ([ann, bob] ! (1 - 1)) \<in> set blood_groups_options"
    by code_simp
  have i: "py_int cpython (ustr ''31'') = Inr 31"
    by code_simp
  have s: "py_str 31 = ustr ''31''"
    by code_simp
  have n: "ustr ''ANN lee'' \<noteq> []" "ustr ''0123456789'' \<noteq> []" "ustr ''Pune'' \<noteq> []"
    by (simp_all add: ustr_def)
  note w = update_same_identity_no_conflict[OF get_donors_demo r l c,
      of "ustr ''31''" "ustr ''O+''" "ustr ''Pune''" True]
  from w b i n have "update_view cpython demo_state 1 (ustr ''ANN lee'') (ustr ''31'') (ustr ''O+'')
          (ustr ''0123456789'') (ustr ''Pune'') True
       = (Inr Updated,
          update_donor demo_state (1 + 1)
            [ustr ''ANN lee'', py_str 31, ustr ''O+'', ustr ''0123456789'', ustr ''Pune''])
     \<and> get_donors (update_donor demo_state (1 + 1)
            [ustr ''ANN lee'', py_str 31, ustr ''O+'', ustr ''0123456789'', ustr ''Pune''])
       = Inr ([ann, bob][1 - 1 := \<lparr> name = ustr ''ANN lee'', age = py_str 31, blood_group = ustr ''O+'',
                 contact = ustr ''0123456789'', location = ustr ''Pune'' \<rparr>])"
    by blast
  then show ?thesis using w s by (simp add: numeral_2_eq_2)
qed

text \<open>
  Changing only the location, to the empty string, is not written: the handler asks for
  valid update values.
\<close>

theorem update_with_empty_location_not_written:
  "update_view cpython demo_state 1 (name ann) (age ann) (blood_group ann) (contact ann) [] True
     = (Inr Invalid_Values, demo_state)"
proof -
  have "blood_group ann \<in> set blood_groups_options" by code_simp
  moreover have "name ann \<noteq> []" by code_simp
  ultimately show ?thesis
    using get_donors_demo by (simp add: update_view_def Let_def iloc_def)
qed




section \<open>The export round trip\<close>

lemma csv_run_plain_chars:
  "\<not> csv_needs_quote lt f \<Longrightarrow>
     csv_run In_Field fld rcd (f @ rest) = csv_run In_Field (fld @ f) rcd rest"
  by (induction f arbitrary: fld)
     (simp_all add: csv_needs_quote_def csv_step_def csv_plain_def)

lemma csv_run_quoted_chars:
  "csv_run In_Quoted fld rcd (concat (map (\<lambda>c. if c = 34 then [34, 34] else [c]) f) @ rest)
     = csv_run In_Quoted (fld @ f) rcd rest"
  by (induction f arbitrary: fld) (simp_all add: csv_step_def)

lemma csv_run_end_of_field:
  "csv_end t \<Longrightarrow>
     csv_run Quote_In_Quoted f rcd (t # rest) = csv_run In_Field f rcd (t # rest)"
  "csv_end t \<Longrightarrow>
     csv_run Start_Field [] rcd (t # rest) = csv_run In_Field [] rcd (t # rest)"
  "csv_run Start_Record [] [] (44 # rest) = csv_run In_Field [] [] (44 # rest)"
  by (auto simp: csv_end_def csv_step_def csv_start_def csv_plain_def)

lemma csv_run_field:
  assumes "csv_end t"
  shows "csv_run Start_Field [] rcd (csv_field lt f @ t # rest) = csv_run In_Field f rcd (t # rest)"
proof (cases "csv_needs_quote lt f")
  case True
  have "csv_run Start_Field [] rcd (csv_field lt f @ t # rest)
          = csv_run In_Quoted [] rcd
              (concat (map (\<lambda>c. if c = 34 then [34, 34] else [c]) f) @ 34 # t # rest)"
    using True by (simp add: csv_field_def csv_step_def csv_start_def)
  also have "\<dots> = csv_run In_Quoted f rcd (34 # t # rest)"
    using csv_run_quoted_chars[of "[]" rcd f] by simp
  also have "\<dots> = csv_run Quote_In_Quoted f rcd (t # rest)"
    by (simp add: csv_step_def)
  finally show ?thesis using csv_run_end_of_field(1)[OF assms] by simp
next
  case False
  show ?thesis
  proof (cases f)
    case Nil
    then show ?thesis using False csv_run_end_of_field(2)[OF assms] by (simp add: csv_field_def)
  next
    case (Cons c f')
    then have c: "c \<noteq> 34" "c \<noteq> 44" "c \<noteq> 10" "c \<noteq> 13" and f': "\<not> csv_needs_quote lt f'"
      using False by (auto simp: csv_needs_quote_def)
    have "csv_run Start_Field [] rcd (csv_field lt f @ t # rest)
            = csv_run In_Field [c] rcd (f' @ t # rest)"
      using False Cons c by (simp add: csv_field_def csv_step_def csv_start_def csv_plain_def)
    then show ?thesis using csv_run_plain_chars[OF f', of "[c]" rcd] Cons by simp
  qed
qed

lemma csv_run_first_field:
  "csv_run Start_Record [] [] (csv_field lt f @ 44 # rest) = csv_run In_Field f [] (44 # rest)"
proof (cases "csv_needs_quote lt f")
  case True
  have "csv_run Start_Record [] [] (csv_field lt f @ 44 # rest)
          = csv_run In_Quoted [] []
              (concat (map (\<lambda>c. if c = 34 then [34, 34] else [c]) f) @ 34 # 44 # rest)"
    using True by (simp add: csv_field_def csv_step_def csv_start_def)
  also have "\<dots> = csv_run In_Quoted f [] (34 # 44 # rest)"
    using csv_run_quoted_chars[of "[]" "[]" f] by simp
  also have "\<dots> = csv_run Quote_In_Quoted f [] (44 # rest)"
    by (simp add: csv_step_def)
  finally show ?thesis using csv_run_end_of_field(1)[of 44] by (simp add: csv_end_def)
next
  case False
  show ?thesis
  proof (cases f)
    case Nil
    then show ?thesis using False csv_run_end_of_field(3) by (simp add: csv_field_def)
  next
    case (Cons c f')
    then have c: "c \<noteq> 34" "c \<noteq> 44" "c \<noteq> 10" "c \<noteq> 13" and f': "\<not> csv_needs_quote lt f'"
      using False by (auto simp: csv_needs_quote_def)
    have "csv_run Start_Record [] [] (csv_field lt f @ 44 # rest)
            = csv_run In_Field [c] [] (f' @ 44 # rest)"
      using False Cons c by (simp add: csv_field_def csv_step_def csv_start_def csv_plain_def)
    then show ?thesis using csv_run_plain_chars[OF f', of "[c]" "[]"] Cons by simp
  qed
qed

lemma csv_run_comma:
  "csv_run In_Field f rcd (44 # rest) = csv_run Start_Field [] (rcd @ [f]) rest"
  by (simp add: csv_step_def csv_plain_def)

lemma csv_run_line_end:
  assumes "lt = [10] \<or> lt = [13, 10]"
  shows "csv_run In_Field f rcd (lt @ rest) = (rcd @ [f]) # csv_run Start_Record [] [] rest"
  using assms by (auto simp: csv_step_def csv_plain_def)

lemma csv_end_line:
  "lt = [10] \<or> lt = [13, 10] \<Longrightarrow> \<exists>t ts. lt = t # ts \<and> csv_end t"
  by (auto simp: csv_end_def)

lemma csv_run_line:
  assumes lt: "lt = [10] \<or> lt = [13, 10]"
  shows "csv_run Start_Record [] [] (csv_line lt [a, b, c, d, e] @ rest)
           = [a, b, c, d, e] # csv_run Start_Record [] [] rest"
proof -
  obtain t ts where t: "lt = t # ts" "csv_end t" using csv_end_line[OF lt] by blast
  have k: "csv_end 44" by (simp add: csv_end_def)
  have "csv_line lt [a, b, c, d, e] @ rest
          = csv_field lt a @ 44 # (csv_field lt b @ 44 # (csv_field lt c @ 44 #
              (csv_field lt d @ 44 # (csv_field lt e @ t # (ts @ rest)))))"
    using t by (simp add: csv_line_def)
  then have "csv_run Start_Record [] [] (csv_line lt [a, b, c, d, e] @ rest)
          = csv_run In_Field e [a, b, c, d] (t # (ts @ rest))"
    by (simp add: csv_run_first_field csv_run_comma csv_run_field[OF k] csv_run_field[OF t(2)]
        del: csv_run.simps)
  then show ?thesis using csv_run_line_end[OF lt, of e "[a, b, c, d]" rest] t
    by (simp del: csv_run.simps)
qed

lemma csv_run_lines:
  assumes lt: "lt = [10] \<or> lt = [13, 10]" and "list_all (\<lambda>r. length r = 5) rows"
  shows "csv_run Start_Record [] [] (concat (map (csv_line lt) rows) @ rest)
           = rows @ csv_run Start_Record [] [] rest"
  using assms(2)
proof (induction rows)
  case Nil
  then show ?case by simp
next
  case (Cons r rows)
  then obtain a b c d e where r: "r = [a, b, c, d, e]"
    by (cases r rule: donor_of_row.cases) auto
  show ?case using Cons csv_run_line[OF lt, of a b c d e] r by (simp del: csv_run.simps)
qed

lemma read_csv_to_csv:
  assumes "os_linesep py = [10] \<or> os_linesep py = [13, 10]"
  shows "read_csv (to_csv py df) = Inr df"
proof -
  have 5: "list_all (\<lambda>r. length r = 5) (expected_headers # map row_of_donor df)"
    by (simp add: expected_headers_def row_of_donor_def list_all_iff)
  have "csv_run Start_Record [] [] (to_csv py df) = expected_headers # map row_of_donor df"
    using csv_run_lines[OF assms 5, of "[]"] by (simp add: to_csv_def)
  then show ?thesis by (simp add: read_csv_def DataFrame_iff)
qed

lemma filtered_df_subset: "set (filtered_df df bg sel) \<subseteq> set df"
  by (auto simp: filtered_df_filter)

text \<open>
  C8: for every donor table whose records satisfy the donor data model, the filtered
  set written by \<open>to_csv\<close>, with LF or CR LF as the line terminator, is read back as the
  same records, field for field and in the same order; the records read back satisfy
  the data model again.
\<close>

theorem export_round_trip:
  assumes "os_linesep py = [10] \<or> os_linesep py = [13, 10]"
    and "list_all (donor_model py) df"
  shows "read_csv (to_csv py (filtered_df df bg sel)) = Inr (filtered_df df bg sel)
         \<and> list_all (donor_model py) (filtered_df df bg sel)"
  using read_csv_to_csv[OF assms(1)] assms(2) filtered_df_subset[of df bg sel]
  by (auto simp: list_all_iff)

theorem export_round_trip_witness:
  "list_all (donor_model cpython) [ann, bob]
   \<and> filtered_df [ann, bob] (ustr ''O+'') [] = [ann]
   \<and> read_csv (to_csv cpython [ann]) = Inr [ann]"
proof -
  have l: "os_linesep cpython = [10] \<or> os_linesep cpython = [13, 10]"
    by (simp add: cpython_def)
  have m: "list_all (donor_model cpython) [ann, bob]"
    by code_simp
  have f: "filtered_df [ann, bob] (ustr ''O+'') [] = [ann]"
    by code_simp
  show ?thesis
    using export_round_trip[OF l m, of "ustr ''O+''" "[]"] m f by simp
qed

end
